theory Spec2Isabelle
  imports Main "HOL-Library.Word"
begin

section \<open>JavaScript values as the two components see them\<close>

text \<open>
  A JavaScript string is a sequence of UTF-16 code units; \<open>length\<close>, the regular
  expressions without the \<open>u\<close> flag, \<open>trim\<close> and \<open>includes\<close> all work on code units.
\<close>

type_synonym code_unit = "16 word"
type_synonym jsstring = "code_unit list"

definition lit :: "string \<Rightarrow> jsstring" where
  "lit s = map (\<lambda>c. of_nat (of_char c)) s"

subsection \<open>The three regular expressions of validatePassword\<close>

definition is_line_terminator :: "code_unit \<Rightarrow> bool" where
  "is_line_terminator c = (c = 0x000A \<or> c = 0x000D \<or> c = 0x2028 \<or> c = 0x2029)"

definition class_lower :: "code_unit \<Rightarrow> bool" where
  "class_lower c = (0x61 \<le> c \<and> c \<le> 0x7A)"

definition class_upper :: "code_unit \<Rightarrow> bool" where
  "class_upper c = (0x41 \<le> c \<and> c \<le> 0x5A)"

definition class_digit :: "code_unit \<Rightarrow> bool" where
  "class_digit c = (0x30 \<le> c \<and> c \<le> 0x39)"

text \<open>
  \<open>dotstar_class cls s\<close>: the pattern \<open>.*[cls]\<close> matches a prefix of \<open>s\<close>; the dot
  matches any code unit except a line terminator.
\<close>

fun dotstar_class :: "(code_unit \<Rightarrow> bool) \<Rightarrow> jsstring \<Rightarrow> bool" where
  "dotstar_class cls [] = False"
| "dotstar_class cls (c # cs) = (cls c \<or> (\<not> is_line_terminator c \<and> dotstar_class cls cs))"

text \<open>
  \<open>/(?=.*[cls])/.test(s)\<close>: the unanchored search tries the lookahead at every start
  index, from the left.
\<close>

fun lookahead_test :: "(code_unit \<Rightarrow> bool) \<Rightarrow> jsstring \<Rightarrow> bool" where
  "lookahead_test cls [] = False"
| "lookahead_test cls (c # cs) = (dotstar_class cls (c # cs) \<or> lookahead_test cls cs)"

subsection \<open>validatePassword\<close>

definition validatePassword :: "jsstring \<Rightarrow> jsstring option" where
  "validatePassword password =
     (if length password < 8 then
        Some (lit ''Password must be at least 8 characters long'')
      else if \<not> lookahead_test class_lower password then
        Some (lit ''Password must contain at least one lowercase letter'')
      else if \<not> lookahead_test class_upper password then
        Some (lit ''Password must contain at least one uppercase letter'')
      else if \<not> lookahead_test class_digit password then
        Some (lit ''Password must contain at least one number'')
      else None)"

subsection \<open>Response bodies\<close>

text \<open>
  A response body is whatever the server sent, parsed by axios: any JSON value, or
  \<open>undefined\<close> when there is no body. Of a number only its being zero matters here.
  The keys of a \<open>JObj\<close> are distinct, as in any JavaScript object.
\<close>

datatype jsval =
    JUndefined
  | JNull
  | JBool bool
  | JNum int
  | JStr jsstring
  | JObj "(jsstring \<times> jsval) list"

fun truthy :: "jsval \<Rightarrow> bool" where
  "truthy JUndefined = False"
| "truthy JNull = False"
| "truthy (JBool b) = b"
| "truthy (JNum n) = (n \<noteq> 0)"
| "truthy (JStr s) = (s \<noteq> [])"
| "truthy (JObj kvs) = True"

text \<open>\<open>a || b\<close>\<close>

definition js_or :: "jsval \<Rightarrow> jsval \<Rightarrow> jsval" where
  "js_or a b = (if truthy a then a else b)"

datatype thrown =
    AxiosError jsstring "(nat \<times> jsval) option"
      \<comment> \<open>\<open>message\<close>, and \<open>response\<close> as \<open>(status, data)\<close> when the server answered\<close>
  | TypeError
  | OtherError

text \<open>
  \<open>v.k\<close>: reading a property of \<open>undefined\<close> or \<open>null\<close> throws; a primitive has
  none of the keys read here (\<open>success\<close>, \<open>message\<close>, \<open>error\<close>).
\<close>

fun get_prop :: "jsval \<Rightarrow> jsstring \<Rightarrow> thrown + jsval" where
  "get_prop JUndefined k = Inl TypeError"
| "get_prop JNull k = Inl TypeError"
| "get_prop (JObj kvs) k = Inr (case map_of kvs k of None \<Rightarrow> JUndefined | Some v \<Rightarrow> v)"
| "get_prop v k = Inr JUndefined"

text \<open>\<open>v?.k\<close>\<close>

fun opt_prop :: "jsval \<Rightarrow> jsstring \<Rightarrow> jsval" where
  "opt_prop (JObj kvs) k = (case map_of kvs k of None \<Rightarrow> JUndefined | Some v \<Rightarrow> v)"
| "opt_prop v k = JUndefined"

datatype post_result = Fulfilled jsval | Rejected thrown

section \<open>ResetPasswordPage\<close>

record reset_request =
  req_token :: "jsstring option"
  req_password :: jsstring

text \<open>
  The component's state (one field for each \<open>useState\<close>, \<open>passwords\<close> flattened), the
  route parameter it closes over, and what it has done to the outside: the POSTs issued
  and the callbacks handed to \<open>setTimeout\<close> (delay in ms, route pushed), oldest first.
\<close>

record reset_state =
  token :: "jsstring option"
  password :: jsstring
  confirmPassword :: jsstring
  error :: jsval
  success :: jsval
  isLoading :: bool
  tokenValid :: "bool option"
  showPassword :: bool
  showConfirmPassword :: bool
  posted :: "reset_request list"
  timeouts :: "(nat \<times> jsstring) list"

definition initial_state :: "jsstring option \<Rightarrow> reset_state" where
  "initial_state t =
     \<lparr>token = t, password = [], confirmPassword = [], error = JStr [], success = JStr [],
      isLoading = False, tokenValid = None, showPassword = False,
      showConfirmPassword = False, posted = [], timeouts = []\<rparr>"

text \<open>\<open>!token\<close>: the parameter is missing or the empty string.\<close>

definition token_falsy :: "jsstring option \<Rightarrow> bool" where
  "token_falsy t = (case t of None \<Rightarrow> True | Some s \<Rightarrow> s = [])"

text \<open>The effect run after the first render.\<close>

definition token_effect :: "reset_state \<Rightarrow> reset_state" where
  "token_effect st =
     (if token_falsy (token st) then
        st\<lparr>error := JStr (lit ''Invalid reset link. Please request a new password reset.''),
           tokenValid := Some False\<rparr>
      else st\<lparr>tokenValid := Some True\<rparr>)"

definition mount :: "jsstring option \<Rightarrow> reset_state" where
  "mount t = token_effect (initial_state t)"

datatype field = PasswordField | ConfirmPasswordField

definition handleChange :: "field \<Rightarrow> jsstring \<Rightarrow> reset_state \<Rightarrow> reset_state" where
  "handleChange name v st =
     (let st1 = (case name of
                   PasswordField \<Rightarrow> st\<lparr>password := v\<rparr>
                 | ConfirmPasswordField \<Rightarrow> st\<lparr>confirmPassword := v\<rparr>);
          st2 = (if truthy (error st) then st1\<lparr>error := JStr []\<rparr> else st1)
      in if truthy (success st) then st2\<lparr>success := JStr []\<rparr> else st2)"

text \<open>
  handleResetPassword up to its \<open>await\<close>: it returns early with an error, or issues the
  POST and suspends.
\<close>

definition handleResetPassword_begin :: "reset_state \<Rightarrow> reset_state" where
  "handleResetPassword_begin st =
     (let st1 = st\<lparr>error := JStr [], success := JStr [], isLoading := True\<rparr> in
      if password st = [] \<or> confirmPassword st = [] then
        st1\<lparr>error := JStr (lit ''Please fill in all fields''), isLoading := False\<rparr>
      else if password st \<noteq> confirmPassword st then
        st1\<lparr>error := JStr (lit ''Passwords do not match''), isLoading := False\<rparr>
      else
        (let awaiting = st1\<lparr>posted := posted st @
                               [\<lparr>req_token = token st, req_password = password st\<rparr>]\<rparr>
         in case validatePassword (password st) of
              None \<Rightarrow> awaiting
            | Some passwordError \<Rightarrow>
                if passwordError \<noteq> [] then
                  st1\<lparr>error := JStr passwordError, isLoading := False\<rparr>
                else awaiting))"

text \<open>The rest of the \<open>try\<close> block, once the POST has settled.\<close>

definition try_block :: "post_result \<Rightarrow> reset_state \<Rightarrow> thrown + reset_state" where
  "try_block r st =
     (case r of
        Rejected e \<Rightarrow> Inl e
      | Fulfilled data \<Rightarrow>
          (case get_prop data (lit ''success'') of
             Inl e \<Rightarrow> Inl e
           | Inr ok \<Rightarrow>
               if truthy ok then
                 Inr (st\<lparr>success :=
                            js_or (opt_prop data (lit ''message''))
                              (JStr (lit ''Password has been reset successfully! Redirecting to login...'')),
                         password := [], confirmPassword := [],
                         timeouts := timeouts st @ [(3000, lit ''/signin'')]\<rparr>)
               else Inr st))"

definition catch_block :: "thrown \<Rightarrow> reset_state \<Rightarrow> reset_state" where
  "catch_block e st =
     (case e of
        AxiosError m (Some (status, data)) \<Rightarrow>
          (let st1 = st\<lparr>error := js_or (opt_prop data (lit ''message''))
                                      (opt_prop data (lit ''error''))\<rparr>
           in if status = 400 \<or> status = 404 then st1\<lparr>tokenValid := Some False\<rparr> else st1)
      | _ \<Rightarrow> st\<lparr>error := JStr (lit ''An unexpected error occurred. Please try again later.'')\<rparr>)"

definition handleResetPassword_resume :: "post_result \<Rightarrow> reset_state \<Rightarrow> reset_state" where
  "handleResetPassword_resume r st =
     (case try_block r st of
        Inl e \<Rightarrow> catch_block e st
      | Inr st' \<Rightarrow> st')\<lparr>isLoading := False\<rparr>"

subsection \<open>What is rendered\<close>

datatype view = LoadingView | InvalidResetLinkView | ResetFormView

definition render :: "reset_state \<Rightarrow> view" where
  "render st =
     (case tokenValid st of
        None \<Rightarrow> LoadingView
      | Some False \<Rightarrow> InvalidResetLinkView
      | Some True \<Rightarrow> ResetFormView)"

text \<open>The error text on the page, if any.\<close>

definition shown_error :: "reset_state \<Rightarrow> jsval option" where
  "shown_error st =
     (case render st of
        LoadingView \<Rightarrow> None
      | InvalidResetLinkView \<Rightarrow>
          Some (js_or (error st) (JStr (lit ''This password reset link is invalid or has expired.'')))
      | ResetFormView \<Rightarrow> if truthy (error st) then Some (error st) else None)"

text \<open>The \<open>disabled\<close> attribute of the submit button.\<close>

definition submit_disabled :: "reset_state \<Rightarrow> bool" where
  "submit_disabled st = (isLoading st \<or> password st = [] \<or> confirmPassword st = [])"

text \<open>
  Submitting through the page: the form exists only in the form view, and a disabled
  submit button submits nothing.
\<close>

definition submit_form :: "reset_state \<Rightarrow> reset_state" where
  "submit_form st =
     (if render st = ResetFormView \<and> \<not> submit_disabled st
      then handleResetPassword_begin st else st)"

datatype reset_event =
    Change field jsstring
  | Submit
  | Settle post_result
  | TogglePassword
  | ToggleConfirmPassword

text \<open>Every way the state of a mounted page changes, the handlers called directly.\<close>

fun step :: "reset_event \<Rightarrow> reset_state \<Rightarrow> reset_state" where
  "step (Change name v) st = handleChange name v st"
| "step Submit st = handleResetPassword_begin st"
| "step (Settle r) st = handleResetPassword_resume r st"
| "step TogglePassword st = st\<lparr>showPassword := \<not> showPassword st\<rparr>"
| "step ToggleConfirmPassword st = st\<lparr>showConfirmPassword := \<not> showConfirmPassword st\<rparr>"

fun run :: "reset_event list \<Rightarrow> reset_state \<Rightarrow> reset_state" where
  "run [] st = st"
| "run (ev # evs) st = run evs (step ev st)"

text \<open>
  The same events as the page lets them through, with the number of POSTs that have not
  settled yet: inputs and toggles are disabled while loading, and a response arrives
  only for a request that is pending.
\<close>

fun ui_step :: "reset_event \<Rightarrow> reset_state \<times> nat \<Rightarrow> reset_state \<times> nat" where
  "ui_step (Change name v) (st, n) =
     (if render st = ResetFormView \<and> \<not> isLoading st then handleChange name v st else st, n)"
| "ui_step Submit (st, n) =
     (submit_form st, n + (length (posted (submit_form st)) - length (posted st)))"
| "ui_step (Settle r) (st, n) =
     (if n = 0 then (st, n) else (handleResetPassword_resume r st, n - 1))"
| "ui_step ev (st, n) =
     (if render st = ResetFormView \<and> \<not> isLoading st then step ev st else st, n)"

fun ui_run :: "reset_event list \<Rightarrow> reset_state \<times> nat \<Rightarrow> reset_state \<times> nat" where
  "ui_run [] c = c"
| "ui_run (ev # evs) c = ui_run evs (ui_step ev c)"

subsection \<open>A page in the middle of a reset\<close>

text \<open>
  The page mounted with the token \<open>a1b2c3\<close>, both fields filled with \<open>Abcdefg1\<close>: before
  the form is submitted, and after, while the POST is pending.
\<close>

definition filled_example :: reset_state where
  "filled_example =
     (mount (Some (lit ''a1b2c3'')))
       \<lparr>password := lit ''Abcdefg1'', confirmPassword := lit ''Abcdefg1''\<rparr>"

definition pending_example :: reset_state where
  "pending_example = handleResetPassword_begin filled_example"

section \<open>ResumeJDUpload\<close>

text \<open>A browser \<open>File\<close>: its content (by identity), name, size in bytes and MIME type.\<close>

record dom_file =
  file_blob :: nat
  file_name :: jsstring
  file_size :: nat
  file_type :: jsstring

text \<open>The interface \<open>ResumeFile\<close> (fields \<open>file\<close>, \<open>name\<close>, \<open>size\<close>).\<close>

record ResumeFile =
  rf_file :: dom_file
  rf_name :: jsstring
  rf_size :: nat

record JobDetails =
  title :: jsstring
  company :: jsstring
  description :: jsstring

record analyse_request =
  resume_file :: dom_file
  job_description :: jsstring
  job_title :: jsstring

text \<open>
  The component's state, and what it has done to the outside: the POSTs issued, the routes
  pushed and the values logged with \<open>console.error\<close>, oldest first.
\<close>

text \<open>
  Modelled from the spec: \<open>useDashboard\<close> (DashboardContext) is not among the sources;
  \<open>openDialog\<close> and \<open>resumeAnalysisData\<close> are the dialog flag and the shared result slot
  that the hosting context owns, written only through \<open>setOpenDialog\<close> and
  \<open>setResumeAnalysisData\<close>.
\<close>

record upload_state =
  resumeFile :: "ResumeFile option"
  jobDetails :: JobDetails
  isScanning :: bool
  openDialog :: bool
  resumeAnalysisData :: jsval
  analysed :: "analyse_request list"
  pushed :: "jsstring list"
  console :: "jsval list"

text \<open>\<open>s.startsWith(p)\<close> and \<open>s.includes(p)\<close>\<close>

fun starts_with :: "jsstring \<Rightarrow> jsstring \<Rightarrow> bool" where
  "starts_with s [] = True"
| "starts_with [] (p # ps) = False"
| "starts_with (c # cs) (p # ps) = (c = p \<and> starts_with cs ps)"

fun js_includes :: "jsstring \<Rightarrow> jsstring \<Rightarrow> bool" where
  "js_includes [] p = starts_with [] p"
| "js_includes (c # cs) p = (starts_with (c # cs) p \<or> js_includes cs p)"

text \<open>The test both handlers make on the file's type.\<close>

definition upload_initial :: "bool \<Rightarrow> jsval \<Rightarrow> upload_state" where
  "upload_initial dialog slot =
     \<lparr>resumeFile = None, jobDetails = \<lparr>title = [], company = [], description = []\<rparr>,
      isScanning = False, openDialog = dialog, resumeAnalysisData = slot,
      analysed = [], pushed = [], console = []\<rparr>"

definition handleFileUpload :: "dom_file option \<Rightarrow> upload_state \<Rightarrow> upload_state" where
  "handleFileUpload files0 st =
     (case files0 of
        None \<Rightarrow> st
      | Some f \<Rightarrow>
          if file_type f = lit ''application/pdf'' \<or> js_includes (file_type f) (lit ''document'')
          then st\<lparr>resumeFile :=
                    Some \<lparr>rf_file = f, rf_name = file_name f, rf_size = file_size f\<rparr>\<rparr>
          else st)"

definition handleDrop :: "dom_file option \<Rightarrow> upload_state \<Rightarrow> upload_state" where
  "handleDrop files0 st =
     (case files0 of
        None \<Rightarrow> st
      | Some f \<Rightarrow>
          if file_type f = lit ''application/pdf'' \<or> js_includes (file_type f) (lit ''document'')
          then st\<lparr>resumeFile :=
                    Some \<lparr>rf_file = f, rf_name = file_name f, rf_size = file_size f\<rparr>\<rparr>
          else st)"

datatype job_field = Title | Company | Description

definition handleJobDetailsChange :: "job_field \<Rightarrow> jsstring \<Rightarrow> upload_state \<Rightarrow> upload_state" where
  "handleJobDetailsChange fld v st =
     st\<lparr>jobDetails :=
          (case fld of
             Title \<Rightarrow> (jobDetails st)\<lparr>title := v\<rparr>
           | Company \<Rightarrow> (jobDetails st)\<lparr>company := v\<rparr>
           | Description \<Rightarrow> (jobDetails st)\<lparr>description := v\<rparr>)\<rparr>"

text \<open>handleStartScanning up to its \<open>await\<close>.\<close>

definition handleStartScanning_begin :: "upload_state \<Rightarrow> upload_state" where
  "handleStartScanning_begin st =
     (case resumeFile st of
        None \<Rightarrow> st
      | Some rf \<Rightarrow>
          if title (jobDetails st) \<noteq> [] \<and> company (jobDetails st) \<noteq> []
             \<and> description (jobDetails st) \<noteq> []
          then st\<lparr>isScanning := True, resumeAnalysisData := JNull,
                  analysed := analysed st @
                    [\<lparr>resume_file = rf_file rf,
                      job_description = description (jobDetails st),
                      job_title = title (jobDetails st)\<rparr>]\<rparr>
          else st)"

text \<open>The rest of handleStartScanning, once the POST has settled.\<close>

definition handleStartScanning_resume :: "post_result \<Rightarrow> upload_state \<Rightarrow> upload_state" where
  "handleStartScanning_resume r st =
     (case r of
        Fulfilled data \<Rightarrow>
          st\<lparr>openDialog := False, resumeAnalysisData := data,
             pushed := pushed st @ [lit ''/dashboard/jd-matcher/resume-analysis'']\<rparr>
      | Rejected (AxiosError m resp) \<Rightarrow>
          st\<lparr>console := console st @
               [js_or (case resp of None \<Rightarrow> JUndefined | Some (status, data) \<Rightarrow> data) (JStr m)]\<rparr>
      | Rejected _ \<Rightarrow> st)\<lparr>isScanning := False\<rparr>"

definition handleCloseDialogBox :: "upload_state \<Rightarrow> upload_state" where
  "handleCloseDialogBox st =
     st\<lparr>resumeFile := None,
        jobDetails := \<lparr>title = [], company = [], description = []\<rparr>,
        isScanning := False, openDialog := False\<rparr>"

text \<open>
  \<open>s.trim()\<close> removes white space and line terminators from both ends: TAB, LF, VT, FF,
  CR, SP, NBSP, U+1680, U+2000 to U+200A, LS, PS, U+202F, U+205F, U+3000 and the BOM.
\<close>

definition is_white_space :: "code_unit \<Rightarrow> bool" where
  "is_white_space c =
     ((0x0009 \<le> c \<and> c \<le> 0x000D) \<or> c = 0x0020 \<or> c = 0x00A0 \<or> c = 0x1680
      \<or> (0x2000 \<le> c \<and> c \<le> 0x200A) \<or> c = 0x2028 \<or> c = 0x2029 \<or> c = 0x202F
      \<or> c = 0x205F \<or> c = 0x3000 \<or> c = 0xFEFF)"

definition trim :: "jsstring \<Rightarrow> jsstring" where
  "trim s = rev (dropWhile is_white_space (rev (dropWhile is_white_space s)))"

definition isFormValid :: "upload_state \<Rightarrow> bool" where
  "isFormValid st =
     (resumeFile st \<noteq> None \<and> trim (title (jobDetails st)) \<noteq> []
      \<and> trim (company (jobDetails st)) \<noteq> [] \<and> trim (description (jobDetails st)) \<noteq> [])"

text \<open>The \<open>disabled\<close> attribute of the Start Analysis button.\<close>

definition start_disabled :: "upload_state \<Rightarrow> bool" where
  "start_disabled st = (\<not> isFormValid st \<or> isScanning st)"

text \<open>Clicking the button: a disabled button calls nothing.\<close>

definition click_start :: "upload_state \<Rightarrow> upload_state" where
  "click_start st = (if start_disabled st then st else handleStartScanning_begin st)"

datatype upload_event =
    SelectFile "dom_file option"
  | DropFile "dom_file option"
  | EditJob job_field jsstring
  | ClickStart
  | SettleAnalysis post_result

text \<open>
  The events of an open dialog as the page lets them through, with the number of POSTs
  that have not settled yet.
\<close>

fun upload_step :: "upload_event \<Rightarrow> upload_state \<times> nat \<Rightarrow> upload_state \<times> nat" where
  "upload_step (SelectFile f) (st, n) = (handleFileUpload f st, n)"
| "upload_step (DropFile f) (st, n) = (handleDrop f st, n)"
| "upload_step (EditJob fld v) (st, n) = (handleJobDetailsChange fld v st, n)"
| "upload_step ClickStart (st, n) =
     (click_start st, n + (length (analysed (click_start st)) - length (analysed st)))"
| "upload_step (SettleAnalysis r) (st, n) =
     (if n = 0 then (st, n) else (handleStartScanning_resume r st, n - 1))"

fun upload_run :: "upload_event list \<Rightarrow> upload_state \<times> nat \<Rightarrow> upload_state \<times> nat" where
  "upload_run [] c = c"
| "upload_run (ev # evs) c = upload_run evs (upload_step ev c)"

subsection \<open>A dialog being filled in\<close>

text \<open>
  A PDF chosen and the three fields filled; the same with a title of two spaces; and the
  first one while its analysis request is pending.
\<close>

definition cv_pdf :: dom_file where
  "cv_pdf = \<lparr>file_blob = 1, file_name = lit ''cv.pdf'', file_size = 204800,
              file_type = lit ''application/pdf''\<rparr>"

definition ready_example :: upload_state where
  "ready_example =
     (upload_initial True (JStr (lit ''previous analysis'')))
       \<lparr>resumeFile := Some \<lparr>rf_file = cv_pdf, rf_name = lit ''cv.pdf'', rf_size = 204800\<rparr>,
        jobDetails := \<lparr>title = lit ''Engineer'', company = lit ''Acme'',
                        description = lit ''Build things''\<rparr>\<rparr>"

definition blank_title_example :: upload_state where
  "blank_title_example =
     ready_example\<lparr>jobDetails := (jobDetails ready_example)\<lparr>title := lit ''  ''\<rparr>\<rparr>"

definition scanning_example :: upload_state where
  "scanning_example = handleStartScanning_begin ready_example"

section \<open>Theorems about ResetPasswordPage\<close>

lemma dotstar_class_set: "dotstar_class cls s \<Longrightarrow> \<exists>c \<in> set s. cls c"
  by (induction s) auto

lemma lookahead_test_contains: "lookahead_test cls s \<longleftrightarrow> (\<exists>c \<in> set s. cls c)"
proof (induction s)
  case Nil
  show ?case by simp
next
  case (Cons a s)
  show ?case
  proof
    assume "lookahead_test cls (a # s)"
    then show "\<exists>c \<in> set (a # s). cls c"
      using Cons.IH dotstar_class_set [of cls "a # s"] by auto
  next
    assume "\<exists>c \<in> set (a # s). cls c"
    then show "lookahead_test cls (a # s)"
      using Cons.IH by auto
  qed
qed

subsection \<open>validatePassword\<close>

text \<open>
  C1. For every password, validatePassword returns the message of the first rule that
  fails, in the order: at least 8 code units, a letter in a-z, a letter in A-Z, a digit
  in 0-9; it returns null exactly when all four rules hold; and a password of length at
  least 8 without a lowercase letter gets the lowercase message, whatever else it lacks.
\<close>

theorem validatePassword_first_violated_rule:
  "validatePassword p =
     (if length p < 8 then Some (lit ''Password must be at least 8 characters long'')
      else if \<not> (\<exists>c \<in> set p. class_lower c) then
        Some (lit ''Password must contain at least one lowercase letter'')
      else if \<not> (\<exists>c \<in> set p. class_upper c) then
        Some (lit ''Password must contain at least one uppercase letter'')
      else if \<not> (\<exists>c \<in> set p. class_digit c) then
        Some (lit ''Password must contain at least one number'')
      else None)
   \<and> (validatePassword p = None \<longleftrightarrow>
        8 \<le> length p \<and> (\<exists>c \<in> set p. class_lower c) \<and> (\<exists>c \<in> set p. class_upper c)
        \<and> (\<exists>c \<in> set p. class_digit c))
   \<and> (8 \<le> length p \<and> \<not> (\<exists>c \<in> set p. class_lower c) \<longrightarrow>
        validatePassword p = Some (lit ''Password must contain at least one lowercase letter''))"
  unfolding validatePassword_def lookahead_test_contains by auto

theorem validatePassword_first_violated_rule_witness:
  "validatePassword (lit ''abcdefgh'')
     = Some (lit ''Password must contain at least one uppercase letter'')
   \<and> validatePassword (lit ''Abcdefg1'') = None
   \<and> 8 \<le> length (lit ''!!!!!!!!'')
   \<and> \<not> (\<exists>c \<in> set (lit ''!!!!!!!!''). class_lower c)
   \<and> validatePassword (lit ''!!!!!!!!'')
     = Some (lit ''Password must contain at least one lowercase letter'')"
  using validatePassword_first_violated_rule [of "lit ''abcdefgh''"]
    validatePassword_first_violated_rule [of "lit ''Abcdefg1''"]
    validatePassword_first_violated_rule [of "lit ''!!!!!!!!''"]
  by (simp add: lit_def class_lower_def class_upper_def class_digit_def)

subsection \<open>Mounting the reset page\<close>

text \<open>
  C7. At mount, when the route token is absent (\<open>undefined\<close> or empty, the test being
  \<open>!token\<close>), tokenValid becomes false, the error message is set, the invalid-link view
  is rendered with that message and no request has been issued; when the token is
  present, tokenValid becomes true and no request has been issued either.
\<close>

theorem mount_checks_token_only:
  "(t = None \<or> t = Some [] \<longrightarrow>
      tokenValid (mount t) = Some False
      \<and> error (mount t) = JStr (lit ''Invalid reset link. Please request a new password reset.'')
      \<and> truthy (error (mount t))
      \<and> render (mount t) = InvalidResetLinkView
      \<and> shown_error (mount t) = Some (error (mount t))
      \<and> posted (mount t) = [])
   \<and> ((\<exists>s. t = Some s \<and> s \<noteq> []) \<longrightarrow>
      tokenValid (mount t) = Some True \<and> render (mount t) = ResetFormView
      \<and> posted (mount t) = [])"
  by (auto simp: mount_def token_effect_def initial_state_def token_falsy_def render_def
      shown_error_def js_or_def lit_def)

theorem mount_checks_token_only_witness:
  "tokenValid (mount None) = Some False
   \<and> render (mount None) = InvalidResetLinkView
   \<and> posted (mount None) = []
   \<and> tokenValid (mount (Some (lit ''a1b2c3''))) = Some True
   \<and> posted (mount (Some (lit ''a1b2c3''))) = []"
  using mount_checks_token_only [of None] mount_checks_token_only [of "Some (lit ''a1b2c3'')"]
  by (simp add: lit_def)

subsection \<open>Local validation in handleResetPassword\<close>

lemma lit_eq_Nil [simp]: "lit s = [] \<longleftrightarrow> s = []"
  by (simp add: lit_def)

lemma validatePassword_message_nonempty: "validatePassword p = Some m \<Longrightarrow> m \<noteq> []"
  by (auto simp: validatePassword_def split: if_splits)

text \<open>
  C4. When the password is empty, the confirmation is empty, the two differ, or
  validatePassword rejects the password, handleResetPassword sets a non-empty error
  message, issues no request and schedules nothing; the two password fields, the token
  state and the visibility toggles are unchanged. (Of the rest of the state, the success
  message is cleared and isLoading ends false.)
\<close>

theorem handleResetPassword_rejects_locally:
  assumes "password st = [] \<or> confirmPassword st = []
           \<or> password st \<noteq> confirmPassword st \<or> validatePassword (password st) \<noteq> None"
  shows "(\<exists>m. m \<noteq> []
            \<and> handleResetPassword_begin st
                = st\<lparr>error := JStr m, success := JStr [], isLoading := False\<rparr>)
         \<and> truthy (error (handleResetPassword_begin st))
         \<and> posted (handleResetPassword_begin st) = posted st
         \<and> timeouts (handleResetPassword_begin st) = timeouts st
         \<and> password (handleResetPassword_begin st) = password st
         \<and> confirmPassword (handleResetPassword_begin st) = confirmPassword st
         \<and> tokenValid (handleResetPassword_begin st) = tokenValid st
         \<and> showPassword (handleResetPassword_begin st) = showPassword st
         \<and> showConfirmPassword (handleResetPassword_begin st) = showConfirmPassword st"
proof -
  have "\<exists>m. m \<noteq> []
          \<and> handleResetPassword_begin st
              = st\<lparr>error := JStr m, success := JStr [], isLoading := False\<rparr>"
  proof (cases "password st = [] \<or> confirmPassword st = []")
    case True
    then show ?thesis
      by (intro exI [of _ "lit ''Please fill in all fields''"])
         (simp add: handleResetPassword_begin_def)
  next
    case filled: False
    show ?thesis
    proof (cases "password st \<noteq> confirmPassword st")
      case True
      with filled show ?thesis
        by (intro exI [of _ "lit ''Passwords do not match''"])
           (simp add: handleResetPassword_begin_def)
    next
      case False
      with filled assms obtain m where m: "validatePassword (password st) = Some m"
        by auto
      then have "m \<noteq> []"
        by (rule validatePassword_message_nonempty)
      with filled False m show ?thesis
        by (intro exI [of _ m]) (simp add: handleResetPassword_begin_def)
    qed
  qed
  then obtain m where m: "m \<noteq> []"
    and eq: "handleResetPassword_begin st
           = st\<lparr>error := JStr m, success := JStr [], isLoading := False\<rparr>"
    by blast
  from m eq have "\<exists>m. m \<noteq> []
          \<and> handleResetPassword_begin st
              = st\<lparr>error := JStr m, success := JStr [], isLoading := False\<rparr>"
    by blast
  moreover from m have "truthy (error (handleResetPassword_begin st))"
    by (simp add: eq)
  ultimately show ?thesis
    by (simp add: eq)
qed

theorem handleResetPassword_rejects_locally_witness:
  "handleResetPassword_begin
     ((mount (Some (lit ''a1b2c3'')))\<lparr>password := lit ''Abcdefg1'', confirmPassword := lit ''Abcdefg2''\<rparr>)
   = (mount (Some (lit ''a1b2c3'')))
       \<lparr>password := lit ''Abcdefg1'', confirmPassword := lit ''Abcdefg2'',
        error := JStr (lit ''Passwords do not match'')\<rparr>
   \<and> posted (handleResetPassword_begin
        ((mount (Some (lit ''a1b2c3'')))\<lparr>password := lit ''abcdefgh'', confirmPassword := lit ''abcdefgh''\<rparr>))
     = []"
proof -
  let ?a = "(mount (Some (lit ''a1b2c3'')))\<lparr>password := lit ''Abcdefg1'', confirmPassword := lit ''Abcdefg2''\<rparr>"
  let ?b = "(mount (Some (lit ''a1b2c3'')))\<lparr>password := lit ''abcdefgh'', confirmPassword := lit ''abcdefgh''\<rparr>"
  have a: "password ?a = [] \<or> confirmPassword ?a = []
           \<or> password ?a \<noteq> confirmPassword ?a \<or> validatePassword (password ?a) \<noteq> None"
    by (simp add: lit_def)
  have b: "password ?b = [] \<or> confirmPassword ?b = []
           \<or> password ?b \<noteq> confirmPassword ?b \<or> validatePassword (password ?b) \<noteq> None"
    by (simp add: lit_def validatePassword_def lookahead_test_contains class_upper_def class_lower_def)
  have "posted (handleResetPassword_begin ?a) = posted ?a"
    and "posted (handleResetPassword_begin ?b) = posted ?b"
    using handleResetPassword_rejects_locally [OF a] handleResetPassword_rejects_locally [OF b]
    by simp_all
  moreover have "handleResetPassword_begin ?a
      = ?a\<lparr>error := JStr (lit ''Passwords do not match''), success := JStr [], isLoading := False\<rparr>"
    by (simp add: handleResetPassword_begin_def lit_def)
  ultimately show ?thesis
    by (simp add: mount_def token_effect_def initial_state_def token_falsy_def)
qed

subsection \<open>The token state\<close>

lemma tokenValid_handleChange [simp]: "tokenValid (handleChange name v st) = tokenValid st"
  by (simp add: handleChange_def Let_def split: field.splits)

lemma tokenValid_begin [simp]: "tokenValid (handleResetPassword_begin st) = tokenValid st"
  by (simp add: handleResetPassword_begin_def Let_def split: option.splits)

lemma tokenValid_try_block: "try_block r st = Inr st' \<Longrightarrow> tokenValid st' = tokenValid st"
  by (auto simp: try_block_def split: post_result.splits sum.splits if_splits)

lemma tokenValid_catch_block:
  "tokenValid (catch_block e st) =
     (if \<exists>m status data. e = AxiosError m (Some (status, data)) \<and> (status = 400 \<or> status = 404)
      then Some False else tokenValid st)"
  by (auto simp: catch_block_def Let_def split: thrown.splits option.splits prod.splits)

lemma try_block_Rejected [simp]: "try_block (Rejected e) st = Inl e"
  by (simp add: try_block_def)

lemma try_block_Fulfilled_Inl:
  "try_block (Fulfilled data) st = Inl e \<Longrightarrow> e = TypeError"
  by (cases data) (auto simp: try_block_def split: sum.splits if_splits)

lemma tokenValid_resume:
  "tokenValid (handleResetPassword_resume r st) =
     (if \<exists>m status data. r = Rejected (AxiosError m (Some (status, data)))
            \<and> (status = 400 \<or> status = 404)
      then Some False else tokenValid st)"
proof (cases r)
  case (Rejected e)
  then show ?thesis
    by (simp add: handleResetPassword_resume_def tokenValid_catch_block)
next
  case (Fulfilled data)
  show ?thesis
  proof (cases "try_block (Fulfilled data) st")
    case (Inl e)
    then have "e = TypeError" by (rule try_block_Fulfilled_Inl)
    with Inl Fulfilled show ?thesis
      by (simp add: handleResetPassword_resume_def tokenValid_catch_block)
  next
    case (Inr st')
    with Fulfilled show ?thesis
      by (simp add: handleResetPassword_resume_def tokenValid_try_block [OF Inr])
  qed
qed

lemma step_keeps_invalid: "tokenValid st = Some False \<Longrightarrow> tokenValid (step ev st) = Some False"
  by (cases ev) (simp_all add: tokenValid_resume)

lemma run_keeps_invalid: "tokenValid st = Some False \<Longrightarrow> tokenValid (run evs st) = Some False"
  by (induction evs arbitrary: st) (simp_all add: step_keeps_invalid)

lemma step_from_valid:
  "tokenValid st = Some True \<Longrightarrow>
     tokenValid (step ev st) = Some True
     \<or> (tokenValid (step ev st) = Some False
        \<and> (\<exists>m status data. ev = Settle (Rejected (AxiosError m (Some (status, data))))
              \<and> (status = 400 \<or> status = 404)))"
  by (cases ev) (simp_all add: tokenValid_resume)

text \<open>
  C5. tokenValid starts as null (unknown); the mount effect makes it false when the route
  token is absent and true when it is present; from true, a step either keeps it true or
  is the failure of a submit with status 400 or 404, which makes it false; and false is
  final: after any further events it is still false, the invalid-link view is rendered
  and submitting the form does nothing.
\<close>

theorem tokenValid_state_machine:
  "tokenValid (initial_state t) = None
   \<and> (t = None \<or> t = Some [] \<longrightarrow> tokenValid (mount t) = Some False)
   \<and> ((\<exists>s. t = Some s \<and> s \<noteq> []) \<longrightarrow> tokenValid (mount t) = Some True)
   \<and> (tokenValid st = Some True \<longrightarrow>
        tokenValid (step ev st) = Some True
        \<or> (tokenValid (step ev st) = Some False
           \<and> (\<exists>m status data. ev = Settle (Rejected (AxiosError m (Some (status, data))))
                 \<and> (status = 400 \<or> status = 404))))
   \<and> (code = 400 \<or> code = 404 \<longrightarrow>
        tokenValid (step (Settle (Rejected (AxiosError msg (Some (code, body))))) st) = Some False)
   \<and> (tokenValid st = Some False \<longrightarrow>
        tokenValid (run evs st) = Some False
        \<and> render (run evs st) = InvalidResetLinkView
        \<and> submit_form (run evs st) = run evs st)"
proof -
  have "tokenValid (initial_state t) = None"
    by (simp add: initial_state_def)
  moreover have "t = None \<or> t = Some [] \<longrightarrow> tokenValid (mount t) = Some False"
    by (auto simp: mount_def token_effect_def token_falsy_def initial_state_def)
  moreover have "(\<exists>s. t = Some s \<and> s \<noteq> []) \<longrightarrow> tokenValid (mount t) = Some True"
    by (auto simp: mount_def token_effect_def token_falsy_def initial_state_def)
  moreover have "tokenValid st = Some True \<longrightarrow>
        tokenValid (step ev st) = Some True
        \<or> (tokenValid (step ev st) = Some False
           \<and> (\<exists>m status data. ev = Settle (Rejected (AxiosError m (Some (status, data))))
                 \<and> (status = 400 \<or> status = 404)))"
    using step_from_valid [of st ev] by blast
  moreover have "code = 400 \<or> code = 404 \<longrightarrow>
        tokenValid (step (Settle (Rejected (AxiosError msg (Some (code, body))))) st) = Some False"
    by (simp add: tokenValid_resume)
  moreover have "tokenValid st = Some False \<longrightarrow>
        tokenValid (run evs st) = Some False
        \<and> render (run evs st) = InvalidResetLinkView
        \<and> submit_form (run evs st) = run evs st"
    using run_keeps_invalid [of st evs] by (simp add: render_def submit_form_def)
  ultimately show ?thesis by blast
qed

lemma filled_example_eq:
  "filled_example =
     \<lparr>token = Some (lit ''a1b2c3''), password = lit ''Abcdefg1'',
      confirmPassword = lit ''Abcdefg1'', error = JStr [], success = JStr [],
      isLoading = False, tokenValid = Some True, showPassword = False,
      showConfirmPassword = False, posted = [], timeouts = []\<rparr>"
  by (simp add: filled_example_def mount_def token_effect_def token_falsy_def initial_state_def)

lemma validatePassword_Abcdefg1: "validatePassword (lit ''Abcdefg1'') = None"
  by (simp add: validatePassword_def lookahead_test_contains lit_def
      class_lower_def class_upper_def class_digit_def)

lemma pending_example_eq:
  "pending_example =
     \<lparr>token = Some (lit ''a1b2c3''), password = lit ''Abcdefg1'',
      confirmPassword = lit ''Abcdefg1'', error = JStr [], success = JStr [],
      isLoading = True, tokenValid = Some True, showPassword = False,
      showConfirmPassword = False,
      posted = [\<lparr>req_token = Some (lit ''a1b2c3''), req_password = lit ''Abcdefg1''\<rparr>],
      timeouts = []\<rparr>"
  by (simp add: pending_example_def handleResetPassword_begin_def filled_example_eq
      validatePassword_Abcdefg1)

theorem tokenValid_state_machine_witness:
  "tokenValid (mount None) = Some False
   \<and> tokenValid (mount (Some (lit ''a1b2c3''))) = Some True
   \<and> tokenValid (step (Settle (Rejected (AxiosError (lit ''Request failed with status code 404'')
                     (Some (404, JObj []))))) pending_example) = Some False
   \<and> render (run [Change PasswordField (lit ''Abcdefg2''), Submit, Settle (Fulfilled JNull)]
        (step (Settle (Rejected (AxiosError (lit ''Request failed with status code 404'')
                     (Some (404, JObj []))))) pending_example)) = InvalidResetLinkView"
proof -
  let ?ev = "Settle (Rejected (AxiosError (lit ''Request failed with status code 404'')
                     (Some (404, JObj []))))"
  let ?evs = "[Change PasswordField (lit ''Abcdefg2''), Submit, Settle (Fulfilled JNull)]"
  have valid: "tokenValid pending_example = Some True"
    by (simp add: pending_example_eq)
  have "tokenValid (mount None) = Some False"
    using tokenValid_state_machine [where t = None] by simp
  moreover have "tokenValid (mount (Some (lit ''a1b2c3''))) = Some True"
    using tokenValid_state_machine [where t = "Some (lit ''a1b2c3'')"] by simp
  moreover have invalid: "tokenValid (step ?ev pending_example) = Some False"
    using valid
      tokenValid_state_machine [where st = pending_example and code = 404
        and msg = "lit ''Request failed with status code 404''" and body = "JObj []"]
    by simp
  moreover have "render (run ?evs (step ?ev pending_example)) = InvalidResetLinkView"
    using invalid
      tokenValid_state_machine [where st = "step ?ev pending_example" and evs = ?evs]
    by simp
  ultimately show ?thesis by simp
qed

subsection \<open>The outcome of the reset request\<close>

lemma resume_http_error:
  "handleResetPassword_resume (Rejected (AxiosError m (Some (status, data)))) st =
     (if status = 400 \<or> status = 404
      then st\<lparr>error := js_or (opt_prop data (lit ''message'')) (opt_prop data (lit ''error'')),
              tokenValid := Some False, isLoading := False\<rparr>
      else st\<lparr>error := js_or (opt_prop data (lit ''message'')) (opt_prop data (lit ''error'')),
              isLoading := False\<rparr>)"
  by (simp add: handleResetPassword_resume_def catch_block_def Let_def)

lemma resume_no_response:
  "handleResetPassword_resume (Rejected (AxiosError m None)) st =
     st\<lparr>error := JStr (lit ''An unexpected error occurred. Please try again later.''),
        isLoading := False\<rparr>"
  by (simp add: handleResetPassword_resume_def catch_block_def)

text \<open>
  C3, at an input where the code and the claim part: the server answers 500 with the
  body \<open>{}\<close>. handleResetPassword stores \<open>undefined\<close> as the error, the form view shows no
  error text at all, and the token state stays valid.
\<close>

theorem http_error_without_message_shows_nothing:
  "error (handleResetPassword_resume
            (Rejected (AxiosError (lit ''Request failed with status code 500'')
               (Some (500, JObj [])))) pending_example) = JUndefined
   \<and> shown_error (handleResetPassword_resume
            (Rejected (AxiosError (lit ''Request failed with status code 500'')
               (Some (500, JObj [])))) pending_example) = None
   \<and> render (handleResetPassword_resume
            (Rejected (AxiosError (lit ''Request failed with status code 500'')
               (Some (500, JObj [])))) pending_example) = ResetFormView"
  by (simp add: resume_http_error pending_example_eq js_or_def shown_error_def render_def)

text \<open>
  C9, as written, fails when the POST is answered 2xx with a body whose \<open>success\<close> is
  false: the page is as it was while pending, except that isLoading is cleared. So there
  is no success message, the fields keep their text, and nothing is scheduled.
\<close>

theorem fulfilled_without_success_counterexample:
  "handleResetPassword_resume
        (Fulfilled (JObj [(lit ''success'', JBool False)])) pending_example
     = pending_example\<lparr>isLoading := False\<rparr>
   \<and> \<not> truthy (success (handleResetPassword_resume
        (Fulfilled (JObj [(lit ''success'', JBool False)])) pending_example))
   \<and> password (handleResetPassword_resume
        (Fulfilled (JObj [(lit ''success'', JBool False)])) pending_example) = lit ''Abcdefg1''
   \<and> confirmPassword (handleResetPassword_resume
        (Fulfilled (JObj [(lit ''success'', JBool False)])) pending_example) = lit ''Abcdefg1''
   \<and> timeouts (handleResetPassword_resume
        (Fulfilled (JObj [(lit ''success'', JBool False)])) pending_example) = []"
  by (simp add: handleResetPassword_resume_def try_block_def pending_example_eq)

text \<open>
  C9, amended. When the POST is fulfilled with a body whose \<open>success\<close> is truthy, the
  success message is set (the body's \<open>message\<close> if truthy, else the default text), both
  password fields are cleared, one navigation to \<open>/signin\<close> is scheduled 3000 ms later,
  and isLoading is cleared; nothing else changes. When the POST is fulfilled with a body
  (not \<open>null\<close> or \<open>undefined\<close>) whose \<open>success\<close> is falsy, nothing changes except that
  isLoading is cleared.
\<close>

theorem reset_success_path:
  "(get_prop data (lit ''success'') = Inr ok \<and> truthy ok \<longrightarrow>
      handleResetPassword_resume (Fulfilled data) st =
        st\<lparr>success := js_or (opt_prop data (lit ''message''))
                (JStr (lit ''Password has been reset successfully! Redirecting to login...'')),
           password := [], confirmPassword := [],
           timeouts := timeouts st @ [(3000, lit ''/signin'')],
           isLoading := False\<rparr>
      \<and> truthy (success (handleResetPassword_resume (Fulfilled data) st)))
   \<and> (get_prop data (lit ''success'') = Inr ok \<and> \<not> truthy ok \<longrightarrow>
        handleResetPassword_resume (Fulfilled data) st = st\<lparr>isLoading := False\<rparr>)"
  by (simp add: handleResetPassword_resume_def try_block_def js_or_def)

theorem reset_success_path_witness:
  "handleResetPassword_resume (Fulfilled (JObj [(lit ''success'', JBool True)])) pending_example =
     pending_example
       \<lparr>success := JStr (lit ''Password has been reset successfully! Redirecting to login...''),
        password := [], confirmPassword := [],
        timeouts := [(3000, lit ''/signin'')], isLoading := False\<rparr>
   \<and> handleResetPassword_resume (Fulfilled (JObj [(lit ''success'', JNum 0)])) pending_example =
     pending_example\<lparr>isLoading := False\<rparr>"
proof -
  have s: "get_prop (JObj [(lit ''success'', JBool True)]) (lit ''success'') = Inr (JBool True)
           \<and> truthy (JBool True)"
    by simp
  have f: "get_prop (JObj [(lit ''success'', JNum 0)]) (lit ''success'') = Inr (JNum 0)
           \<and> \<not> truthy (JNum 0)"
    by simp
  have "handleResetPassword_resume (Fulfilled (JObj [(lit ''success'', JBool True)]))
          pending_example =
     pending_example
       \<lparr>success := JStr (lit ''Password has been reset successfully! Redirecting to login...''),
        password := [], confirmPassword := [],
        timeouts := [(3000, lit ''/signin'')], isLoading := False\<rparr>"
    using s reset_success_path [where data = "JObj [(lit ''success'', JBool True)]"
        and ok = "JBool True" and st = pending_example]
    by (simp add: js_or_def pending_example_eq lit_def)
  moreover have "handleResetPassword_resume (Fulfilled (JObj [(lit ''success'', JNum 0)]))
          pending_example = pending_example\<lparr>isLoading := False\<rparr>"
    using f reset_success_path [where data = "JObj [(lit ''success'', JNum 0)]"
        and ok = "JNum 0" and st = pending_example]
    by blast
  ultimately show ?thesis by simp
qed

section \<open>Theorems about ResumeJDUpload\<close>

lemma starts_with_iff: "starts_with s p \<longleftrightarrow> (\<exists>post. s = p @ post)"
  by (induction s p rule: starts_with.induct) auto

lemma js_includes_iff: "js_includes s p \<longleftrightarrow> (\<exists>pre post. s = pre @ p @ post)"
proof (induction s)
  case Nil
  show ?case by (auto simp: starts_with_iff)
next
  case (Cons c cs)
  show ?case
  proof
    assume "js_includes (c # cs) p"
    then consider "starts_with (c # cs) p" | "js_includes cs p" by auto
    then show "\<exists>pre post. c # cs = pre @ p @ post"
    proof cases
      case 1
      then obtain post where "c # cs = p @ post" by (auto simp: starts_with_iff)
      then have "c # cs = [] @ p @ post" by simp
      then show ?thesis by blast
    next
      case 2
      with Cons.IH obtain pre post where "cs = pre @ p @ post" by blast
      then have "c # cs = (c # pre) @ p @ post" by simp
      then show ?thesis by blast
    qed
  next
    assume "\<exists>pre post. c # cs = pre @ p @ post"
    then obtain pre post where eq: "c # cs = pre @ p @ post" by blast
    show "js_includes (c # cs) p"
    proof (cases pre)
      case Nil
      with eq have "starts_with (c # cs) p" by (auto simp: starts_with_iff)
      then show ?thesis by simp
    next
      case (Cons a pre')
      with eq have "cs = pre' @ p @ post" by simp
      with Cons.IH have "js_includes cs p" by blast
      then show ?thesis by simp
    qed
  qed
qed

text \<open>
  C8. A file offered by the file input is accepted, the selection becoming its handle,
  name and size, exactly when its type is \<open>application/pdf\<close> or has \<open>document\<close> as a
  substring; otherwise, and when no file is offered, the state is left as it was (there
  is no error to set). A drop does the same as a manual selection.
\<close>

theorem file_acceptance:
  "handleFileUpload (Some f) st =
     (if file_type f = lit ''application/pdf''
         \<or> (\<exists>pre post. file_type f = pre @ lit ''document'' @ post)
      then st\<lparr>resumeFile := Some \<lparr>rf_file = f, rf_name = file_name f, rf_size = file_size f\<rparr>\<rparr>
      else st)
   \<and> handleFileUpload None st = st
   \<and> handleDrop offered st = handleFileUpload offered st"
  by (simp add: handleFileUpload_def handleDrop_def js_includes_iff)

theorem file_acceptance_witness:
  "handleFileUpload
     (Some \<lparr>file_blob = 2, file_name = lit ''photo.png'', file_size = 1024,
            file_type = lit ''image/png''\<rparr>) (upload_initial True JNull)
   = upload_initial True JNull
   \<and> resumeFile (handleDrop (Some cv_pdf) (upload_initial True JNull))
     = Some \<lparr>rf_file = cv_pdf, rf_name = lit ''cv.pdf'', rf_size = 204800\<rparr>"
proof -
  let ?png = "\<lparr>file_blob = 2, file_name = lit ''photo.png'', file_size = 1024,
               file_type = lit ''image/png''\<rparr>"
  have "\<not> js_includes (lit ''image/png'') (lit ''document'')"
    by (simp add: lit_def)
  then have no: "\<not> (\<exists>pre post. file_type ?png = pre @ lit ''document'' @ post)"
    by (simp add: js_includes_iff)
  have pdf: "file_type ?png \<noteq> lit ''application/pdf''"
    by (simp add: lit_def)
  have "handleFileUpload (Some ?png) (upload_initial True JNull) = upload_initial True JNull"
    using file_acceptance [of ?png "upload_initial True JNull"] no pdf by simp
  moreover have "resumeFile (handleDrop (Some cv_pdf) (upload_initial True JNull))
     = Some \<lparr>rf_file = cv_pdf, rf_name = lit ''cv.pdf'', rf_size = 204800\<rparr>"
    using file_acceptance [of cv_pdf "upload_initial True JNull" "Some cv_pdf"]
    by (simp add: cv_pdf_def)
  ultimately show ?thesis by simp
qed

subsection \<open>A failed analysis request\<close>

lemma ready_example_eq:
  "ready_example =
     \<lparr>resumeFile = Some \<lparr>rf_file = cv_pdf, rf_name = lit ''cv.pdf'', rf_size = 204800\<rparr>,
      jobDetails = \<lparr>title = lit ''Engineer'', company = lit ''Acme'',
                     description = lit ''Build things''\<rparr>,
      isScanning = False, openDialog = True,
      resumeAnalysisData = JStr (lit ''previous analysis''),
      analysed = [], pushed = [], console = []\<rparr>"
  by (simp add: ready_example_def upload_initial_def)

lemma scanning_example_eq:
  "scanning_example =
     \<lparr>resumeFile = Some \<lparr>rf_file = cv_pdf, rf_name = lit ''cv.pdf'', rf_size = 204800\<rparr>,
      jobDetails = \<lparr>title = lit ''Engineer'', company = lit ''Acme'',
                     description = lit ''Build things''\<rparr>,
      isScanning = True, openDialog = True, resumeAnalysisData = JNull,
      analysed = [\<lparr>resume_file = cv_pdf, job_description = lit ''Build things'',
                   job_title = lit ''Engineer''\<rparr>],
      pushed = [], console = []\<rparr>"
  by (simp add: scanning_example_def handleStartScanning_begin_def ready_example_eq)

lemma resume_rejected_fields:
  "resumeFile (handleStartScanning_resume (Rejected e) s) = resumeFile s
   \<and> jobDetails (handleStartScanning_resume (Rejected e) s) = jobDetails s
   \<and> openDialog (handleStartScanning_resume (Rejected e) s) = openDialog s
   \<and> resumeAnalysisData (handleStartScanning_resume (Rejected e) s) = resumeAnalysisData s
   \<and> pushed (handleStartScanning_resume (Rejected e) s) = pushed s
   \<and> analysed (handleStartScanning_resume (Rejected e) s) = analysed s
   \<and> \<not> isScanning (handleStartScanning_resume (Rejected e) s)"
  by (cases e) (simp_all add: handleStartScanning_resume_def)

lemma begin_issued_fields:
  "analysed (handleStartScanning_begin st) \<noteq> analysed st \<Longrightarrow>
     resumeFile (handleStartScanning_begin st) = resumeFile st
     \<and> jobDetails (handleStartScanning_begin st) = jobDetails st
     \<and> openDialog (handleStartScanning_begin st) = openDialog st
     \<and> resumeAnalysisData (handleStartScanning_begin st) = JNull
     \<and> isScanning (handleStartScanning_begin st)"
  by (auto simp: handleStartScanning_begin_def split: option.splits if_splits)

text \<open>
  C10. When the analysis request fails, whatever was thrown, the continuation of
  handleStartScanning leaves the selected file, the job details, the dialog flag and the
  shared result slot as they are and only clears isScanning (and may log). So after a
  start that issued a request and its failure, the file, the job details and the dialog
  flag are those from before the start, while the result slot, set to null before the
  request, is still null.
\<close>

theorem failed_analysis_keeps_form:
  "resumeFile (handleStartScanning_resume (Rejected e) s) = resumeFile s
   \<and> jobDetails (handleStartScanning_resume (Rejected e) s) = jobDetails s
   \<and> openDialog (handleStartScanning_resume (Rejected e) s) = openDialog s
   \<and> resumeAnalysisData (handleStartScanning_resume (Rejected e) s) = resumeAnalysisData s
   \<and> pushed (handleStartScanning_resume (Rejected e) s) = pushed s
   \<and> (analysed (handleStartScanning_begin st) \<noteq> analysed st \<longrightarrow>
        resumeFile (handleStartScanning_resume (Rejected e) (handleStartScanning_begin st))
          = resumeFile st
        \<and> jobDetails (handleStartScanning_resume (Rejected e) (handleStartScanning_begin st))
          = jobDetails st
        \<and> openDialog (handleStartScanning_resume (Rejected e) (handleStartScanning_begin st))
          = openDialog st
        \<and> resumeAnalysisData
            (handleStartScanning_resume (Rejected e) (handleStartScanning_begin st)) = JNull)"
  using resume_rejected_fields [of e s]
    resume_rejected_fields [of e "handleStartScanning_begin st"]
    begin_issued_fields [of st]
  by simp

theorem failed_analysis_keeps_form_witness:
  "analysed (handleStartScanning_begin ready_example) \<noteq> analysed ready_example
   \<and> resumeAnalysisData ready_example = JStr (lit ''previous analysis'')
   \<and> handleStartScanning_resume
       (Rejected (AxiosError (lit ''Network Error'') None))
       (handleStartScanning_begin ready_example)
     = ready_example
         \<lparr>resumeAnalysisData := JNull,
          analysed := [\<lparr>resume_file = cv_pdf, job_description = lit ''Build things'',
                        job_title = lit ''Engineer''\<rparr>],
          console := [JStr (lit ''Network Error'')]\<rparr>"
proof -
  have issued: "analysed (handleStartScanning_begin ready_example) \<noteq> analysed ready_example"
    using scanning_example_eq by (simp add: scanning_example_def ready_example_eq)
  have "resumeAnalysisData
          (handleStartScanning_resume (Rejected (AxiosError (lit ''Network Error'') None))
             (handleStartScanning_begin ready_example)) = JNull"
    using issued
      failed_analysis_keeps_form [where e = "AxiosError (lit ''Network Error'') None"
        and s = ready_example and st = ready_example]
    by blast
  moreover have "handleStartScanning_resume
       (Rejected (AxiosError (lit ''Network Error'') None))
       (handleStartScanning_begin ready_example)
     = (handleStartScanning_begin ready_example)
         \<lparr>console := [JStr (lit ''Network Error'')], isScanning := False\<rparr>"
    using scanning_example_eq
    by (simp add: scanning_example_def handleStartScanning_resume_def js_or_def)
  ultimately show ?thesis
    using issued scanning_example_eq
    by (simp add: scanning_example_def ready_example_eq)
qed

subsection \<open>Enabling the Start Analysis button\<close>

lemma dropWhile_all_iff: "(\<forall>x \<in> set (dropWhile P xs). P x) \<longleftrightarrow> (\<forall>x \<in> set xs. P x)"
proof
  assume all: "\<forall>x \<in> set (dropWhile P xs). P x"
  have "dropWhile P xs = []"
  proof (rule ccontr)
    assume ne: "dropWhile P xs \<noteq> []"
    then have "\<not> P (hd (dropWhile P xs))" by (rule hd_dropWhile)
    moreover from ne have "hd (dropWhile P xs) \<in> set (dropWhile P xs)" by simp
    ultimately show False using all by blast
  qed
  then show "\<forall>x \<in> set xs. P x" by simp
next
  assume "\<forall>x \<in> set xs. P x"
  then show "\<forall>x \<in> set (dropWhile P xs). P x"
    by (blast dest: set_dropWhileD)
qed

lemma trim_eq_Nil_iff: "trim s = [] \<longleftrightarrow> (\<forall>c \<in> set s. is_white_space c)"
  by (simp add: trim_def dropWhile_all_iff)

lemma trim_nonempty_raw: "trim s \<noteq> [] \<Longrightarrow> s \<noteq> []"
  by (auto simp: trim_eq_Nil_iff)

lemma begin_guard_fails:
  "resumeFile st = None \<or> title (jobDetails st) = [] \<or> company (jobDetails st) = []
     \<or> description (jobDetails st) = [] \<Longrightarrow> handleStartScanning_begin st = st"
  by (auto simp: handleStartScanning_begin_def split: option.splits)

lemma begin_guard_holds:
  "resumeFile st = Some rf \<Longrightarrow> title (jobDetails st) \<noteq> [] \<Longrightarrow> company (jobDetails st) \<noteq> []
     \<Longrightarrow> description (jobDetails st) \<noteq> [] \<Longrightarrow>
   handleStartScanning_begin st =
     st\<lparr>isScanning := True, resumeAnalysisData := JNull,
        analysed := analysed st @
          [\<lparr>resume_file = rf_file rf, job_description = description (jobDetails st),
            job_title = title (jobDetails st)\<rparr>]\<rparr>"
  by (simp add: handleStartScanning_begin_def)

lemma enabled_passes_guard:
  assumes "\<not> start_disabled st"
  shows "\<exists>rf. resumeFile st = Some rf \<and> title (jobDetails st) \<noteq> []
           \<and> company (jobDetails st) \<noteq> [] \<and> description (jobDetails st) \<noteq> []"
  using assms by (auto simp: start_disabled_def isFormValid_def dest: trim_nonempty_raw)

lemma click_start_enabled:
  assumes "\<not> start_disabled st"
  shows "length (analysed (click_start st)) = Suc (length (analysed st))
         \<and> isScanning (click_start st)"
proof -
  from enabled_passes_guard [OF assms] obtain rf where
    "resumeFile st = Some rf" "title (jobDetails st) \<noteq> []"
    "company (jobDetails st) \<noteq> []" "description (jobDetails st) \<noteq> []"
    by blast
  then show ?thesis
    using assms by (simp add: click_start_def begin_guard_holds)
qed

text \<open>
  C6, as written, fails: with a file chosen, two spaces as the title and the other two
  fields filled, the button is disabled, yet handleStartScanning called in that state
  issues the request; and so it does when called while a request is pending.
\<close>

theorem start_guard_counterexample:
  "start_disabled blank_title_example
   \<and> length (analysed (handleStartScanning_begin blank_title_example))
       = Suc (length (analysed blank_title_example))
   \<and> start_disabled scanning_example
   \<and> length (analysed (handleStartScanning_begin scanning_example))
       = Suc (length (analysed scanning_example))"
  by (simp add: blank_title_example_def ready_example_eq scanning_example_eq start_disabled_def
      isFormValid_def trim_eq_Nil_iff handleStartScanning_begin_def lit_def is_white_space_def)

text \<open>
  C6, amended. The Start Analysis button is enabled exactly when a file is selected, each
  of title, company and description is non-empty after trimming, and isScanning is false.
  handleStartScanning has a weaker guard of its own: it issues a request exactly when a
  file is selected and the three fields, untrimmed, are non-empty, and otherwise does
  nothing; it does not look at isScanning. An enabled button passes that guard, so a
  click issues one request; a click on the disabled button issues none.
\<close>

theorem start_enablement:
  "(\<not> start_disabled st \<longleftrightarrow>
      resumeFile st \<noteq> None \<and> trim (title (jobDetails st)) \<noteq> []
      \<and> trim (company (jobDetails st)) \<noteq> [] \<and> trim (description (jobDetails st)) \<noteq> []
      \<and> \<not> isScanning st)
   \<and> (trim (title (jobDetails st)) \<noteq> [] \<longleftrightarrow> (\<exists>c \<in> set (title (jobDetails st)). \<not> is_white_space c))
   \<and> (analysed (handleStartScanning_begin st) = analysed st \<longleftrightarrow>
        resumeFile st = None \<or> title (jobDetails st) = [] \<or> company (jobDetails st) = []
        \<or> description (jobDetails st) = [])
   \<and> (resumeFile st = None \<or> title (jobDetails st) = [] \<or> company (jobDetails st) = []
        \<or> description (jobDetails st) = [] \<longrightarrow> handleStartScanning_begin st = st)
   \<and> (\<not> start_disabled st \<longrightarrow>
        length (analysed (click_start st)) = Suc (length (analysed st)))
   \<and> (start_disabled st \<longrightarrow> click_start st = st)"
proof -
  have "\<not> start_disabled st \<longleftrightarrow>
      resumeFile st \<noteq> None \<and> trim (title (jobDetails st)) \<noteq> []
      \<and> trim (company (jobDetails st)) \<noteq> [] \<and> trim (description (jobDetails st)) \<noteq> []
      \<and> \<not> isScanning st"
    by (auto simp: start_disabled_def isFormValid_def)
  moreover have "trim (title (jobDetails st)) \<noteq> []
      \<longleftrightarrow> (\<exists>c \<in> set (title (jobDetails st)). \<not> is_white_space c)"
    by (simp add: trim_eq_Nil_iff)
  moreover have "analysed (handleStartScanning_begin st) = analysed st \<longleftrightarrow>
        resumeFile st = None \<or> title (jobDetails st) = [] \<or> company (jobDetails st) = []
        \<or> description (jobDetails st) = []"
    by (auto simp: handleStartScanning_begin_def split: option.splits)
  moreover have "resumeFile st = None \<or> title (jobDetails st) = [] \<or> company (jobDetails st) = []
        \<or> description (jobDetails st) = [] \<longrightarrow> handleStartScanning_begin st = st"
    using begin_guard_fails [of st] by blast
  moreover have "\<not> start_disabled st \<longrightarrow>
        length (analysed (click_start st)) = Suc (length (analysed st))"
    using click_start_enabled [of st] by blast
  moreover have "start_disabled st \<longrightarrow> click_start st = st"
    by (simp add: click_start_def)
  ultimately show ?thesis by blast
qed

theorem start_enablement_witness:
  "\<not> start_disabled ready_example
   \<and> length (analysed (click_start ready_example)) = 1
   \<and> start_disabled blank_title_example
   \<and> click_start blank_title_example = blank_title_example
   \<and> handleStartScanning_begin (upload_initial True JNull) = upload_initial True JNull"
proof -
  have ready: "\<not> start_disabled ready_example"
    using start_enablement [of ready_example]
    by (simp add: ready_example_eq trim_eq_Nil_iff lit_def is_white_space_def)
  have blank: "start_disabled blank_title_example"
    using start_enablement [of blank_title_example]
    by (simp add: blank_title_example_def ready_example_eq trim_eq_Nil_iff lit_def
        is_white_space_def)
  have "length (analysed (click_start ready_example)) = 1"
    using ready start_enablement [of ready_example] by (simp add: ready_example_eq)
  moreover have "click_start blank_title_example = blank_title_example"
    using blank start_enablement [of blank_title_example] by blast
  moreover have "handleStartScanning_begin (upload_initial True JNull) = upload_initial True JNull"
    using start_enablement [of "upload_initial True JNull"] by (simp add: upload_initial_def)
  ultimately show ?thesis using ready blank by simp
qed

section \<open>One request at a time\<close>

lemma isLoading_resume [simp]: "\<not> isLoading (handleResetPassword_resume r st)"
  by (simp add: handleResetPassword_resume_def)

lemma isLoading_handleChange [simp]: "isLoading (handleChange name v st) = isLoading st"
  by (simp add: handleChange_def Let_def split: field.splits)

lemma isScanning_resume [simp]: "\<not> isScanning (handleStartScanning_resume r st)"
  by (simp add: handleStartScanning_resume_def)

lemma begin_posted_cases:
  "(posted (handleResetPassword_begin st) = posted st \<and> \<not> isLoading (handleResetPassword_begin st))
   \<or> (length (posted (handleResetPassword_begin st)) = Suc (length (posted st))
      \<and> isLoading (handleResetPassword_begin st))"
  by (simp add: handleResetPassword_begin_def Let_def split: option.splits)

lemma submit_form_loading: "isLoading st \<Longrightarrow> submit_form st = st"
  by (simp add: submit_form_def submit_disabled_def)

lemma ui_step_invariant:
  assumes "n \<le> 1" and "n = 1 \<longrightarrow> isLoading st"
  shows "snd (ui_step ev (st, n)) \<le> 1
         \<and> (snd (ui_step ev (st, n)) = 1 \<longrightarrow> isLoading (fst (ui_step ev (st, n))))"
proof (cases ev)
  case Submit
  show ?thesis
  proof (cases "isLoading st")
    case True
    with Submit assms show ?thesis by (simp add: submit_form_loading)
  next
    case False
    with assms have n: "n = 0" by auto
    show ?thesis
    proof (cases "render st = ResetFormView \<and> \<not> submit_disabled st")
      case True
      with Submit n begin_posted_cases [of st] show ?thesis
        by (auto simp: submit_form_def)
    next
      case False
      with Submit n show ?thesis by (auto simp: submit_form_def)
    qed
  qed
next
  case (Settle r)
  with assms show ?thesis by auto
qed (use assms in auto)

lemma ui_run_invariant:
  "fst c = st \<Longrightarrow> snd c = n \<Longrightarrow> n \<le> 1 \<Longrightarrow> (n = 1 \<longrightarrow> isLoading st) \<Longrightarrow> snd (ui_run evs c) \<le> 1"
proof (induction evs arbitrary: c st n)
  case Nil
  then show ?case by simp
next
  case (Cons ev evs)
  from Cons.prems have c: "c = (st, n)" by (cases c) simp
  have "snd (ui_step ev (st, n)) \<le> 1
        \<and> (snd (ui_step ev (st, n)) = 1 \<longrightarrow> isLoading (fst (ui_step ev (st, n))))"
    using Cons.prems(3,4) by (rule ui_step_invariant)
  then have "snd (ui_run evs (ui_step ev (st, n))) \<le> 1"
    using Cons.IH [of "ui_step ev (st, n)"] by blast
  with c show ?case by simp
qed

lemma isScanning_handlers [simp]:
  "isScanning (handleFileUpload f st) = isScanning st"
  "isScanning (handleDrop f st) = isScanning st"
  "isScanning (handleJobDetailsChange fld v st) = isScanning st"
  by (simp_all add: handleFileUpload_def handleDrop_def handleJobDetailsChange_def
      split: option.splits)

lemma click_start_scanning: "isScanning st \<Longrightarrow> click_start st = st"
  by (simp add: click_start_def start_disabled_def)

lemma upload_step_invariant:
  assumes "n \<le> 1" and "n = 1 \<longrightarrow> isScanning st"
  shows "snd (upload_step ev (st, n)) \<le> 1
         \<and> (snd (upload_step ev (st, n)) = 1 \<longrightarrow> isScanning (fst (upload_step ev (st, n))))"
proof (cases ev)
  case ClickStart
  show ?thesis
  proof (cases "start_disabled st")
    case True
    with ClickStart assms show ?thesis by (simp add: click_start_def)
  next
    case False
    then have "\<not> isScanning st" by (simp add: start_disabled_def)
    with assms have "n = 0" by auto
    with ClickStart click_start_enabled [OF False] show ?thesis by simp
  qed
next
  case (SettleAnalysis r)
  with assms show ?thesis by auto
qed (use assms in auto)

lemma upload_run_invariant:
  "fst c = st \<Longrightarrow> snd c = n \<Longrightarrow> n \<le> 1 \<Longrightarrow> (n = 1 \<longrightarrow> isScanning st)
     \<Longrightarrow> snd (upload_run evs c) \<le> 1"
proof (induction evs arbitrary: c st n)
  case Nil
  then show ?case by simp
next
  case (Cons ev evs)
  from Cons.prems have c: "c = (st, n)" by (cases c) simp
  have "snd (upload_step ev (st, n)) \<le> 1
        \<and> (snd (upload_step ev (st, n)) = 1 \<longrightarrow> isScanning (fst (upload_step ev (st, n))))"
    using Cons.prems(3,4) by (rule upload_step_invariant)
  then have "snd (upload_run evs (upload_step ev (st, n))) \<le> 1"
    using Cons.IH [of "upload_step ev (st, n)"] by blast
  with c show ?case by simp
qed

text \<open>
  C2, as written, fails: neither handler looks at its flag. Called while a request is
  pending, handleResetPassword issues a second POST, and so does handleStartScanning.
\<close>

theorem handlers_ignore_flag_counterexample:
  "isLoading pending_example
   \<and> length (posted pending_example) = 1
   \<and> length (posted (handleResetPassword_begin pending_example)) = 2
   \<and> isScanning scanning_example
   \<and> length (analysed scanning_example) = 1
   \<and> length (analysed (handleStartScanning_begin scanning_example)) = 2"
  by (simp add: pending_example_eq handleResetPassword_begin_def validatePassword_Abcdefg1
      scanning_example_eq handleStartScanning_begin_def)

text \<open>
  C2, amended. The handlers do not check the in-flight flag; the submit controls do.
  Each handler sets its flag when it issues a request and clears it unconditionally when
  the request settles, fulfilled or rejected. While the flag is set the submit control is
  disabled, so submitting through it changes nothing and issues no request. Hence, for
  events that come through the page (and, for the dialog, until it is closed), at most
  one request is pending at any time.
\<close>

theorem one_request_in_flight:
  "\<not> isLoading (handleResetPassword_resume r st)
   \<and> (posted (handleResetPassword_begin st) \<noteq> posted st \<longrightarrow>
        isLoading (handleResetPassword_begin st))
   \<and> (isLoading st \<longrightarrow> submit_disabled st \<and> submit_form st = st)
   \<and> snd (ui_run evs (mount t, 0)) \<le> 1
   \<and> \<not> isScanning (handleStartScanning_resume r ust)
   \<and> (analysed (handleStartScanning_begin ust) \<noteq> analysed ust \<longrightarrow>
        isScanning (handleStartScanning_begin ust))
   \<and> (isScanning ust \<longrightarrow> start_disabled ust \<and> click_start ust = ust)
   \<and> snd (upload_run uevs (upload_initial dialog slot, 0)) \<le> 1"
proof -
  have "posted (handleResetPassword_begin st) \<noteq> posted st \<longrightarrow>
        isLoading (handleResetPassword_begin st)"
    using begin_posted_cases [of st] by blast
  moreover have "isLoading st \<longrightarrow> submit_disabled st \<and> submit_form st = st"
    by (simp add: submit_form_loading submit_disabled_def)
  moreover have "snd (ui_run evs (mount t, 0)) \<le> 1"
    by (rule ui_run_invariant [of _ "mount t" 0]) simp_all
  moreover have "analysed (handleStartScanning_begin ust) \<noteq> analysed ust \<longrightarrow>
        isScanning (handleStartScanning_begin ust)"
    using begin_issued_fields [of ust] by blast
  moreover have "isScanning ust \<longrightarrow> start_disabled ust \<and> click_start ust = ust"
    by (simp add: click_start_scanning start_disabled_def)
  moreover have "snd (upload_run uevs (upload_initial dialog slot, 0)) \<le> 1"
    by (rule upload_run_invariant [of _ "upload_initial dialog slot" 0]) simp_all
  ultimately show ?thesis by simp
qed

theorem one_request_in_flight_witness:
  "isLoading pending_example
   \<and> submit_form pending_example = pending_example
   \<and> posted (handleResetPassword_begin filled_example) \<noteq> posted filled_example
   \<and> isLoading (handleResetPassword_begin filled_example)
   \<and> \<not> isLoading (handleResetPassword_resume (Fulfilled JNull) pending_example)
   \<and> snd (ui_run [Change PasswordField (lit ''Abcdefg1''),
                   Change ConfirmPasswordField (lit ''Abcdefg1''), Submit, Submit]
             (mount (Some (lit ''a1b2c3'')), 0)) \<le> 1
   \<and> isScanning scanning_example
   \<and> click_start scanning_example = scanning_example
   \<and> snd (upload_run [SelectFile (Some cv_pdf), EditJob Title (lit ''Engineer''),
                       EditJob Company (lit ''Acme''),
                       EditJob Description (lit ''Build things''), ClickStart, ClickStart]
             (upload_initial True JNull, 0)) \<le> 1"
proof -
  let ?evs = "[Change PasswordField (lit ''Abcdefg1''),
               Change ConfirmPasswordField (lit ''Abcdefg1''), Submit, Submit]"
  let ?uevs = "[SelectFile (Some cv_pdf), EditJob Title (lit ''Engineer''),
                EditJob Company (lit ''Acme''),
                EditJob Description (lit ''Build things''), ClickStart, ClickStart]"
  have loading: "isLoading pending_example"
    by (simp add: pending_example_eq)
  have scanning: "isScanning scanning_example"
    by (simp add: scanning_example_eq)
  note inst = one_request_in_flight [where st = pending_example and ust = scanning_example
      and evs = ?evs and t = "Some (lit ''a1b2c3'')" and uevs = ?uevs and dialog = True
      and slot = JNull and r = "Fulfilled JNull"]
  have issued: "posted (handleResetPassword_begin filled_example) \<noteq> posted filled_example"
    using pending_example_eq by (simp add: pending_example_def filled_example_eq)
  from inst loading have "submit_form pending_example = pending_example" by blast
  moreover from issued one_request_in_flight [where st = filled_example]
  have "isLoading (handleResetPassword_begin filled_example)" by blast
  moreover from inst
  have "\<not> isLoading (handleResetPassword_resume (Fulfilled JNull) pending_example)" by blast
  moreover from inst scanning have "click_start scanning_example = scanning_example" by blast
  moreover from inst have "snd (ui_run ?evs (mount (Some (lit ''a1b2c3'')), 0)) \<le> 1" by blast
  moreover from inst have "snd (upload_run ?uevs (upload_initial True JNull, 0)) \<le> 1" by blast
  ultimately show ?thesis using loading scanning issued by blast
qed

lemma example_trace_reset:
  "snd (ui_run [Change PasswordField (lit ''Abcdefg1''),
                Change ConfirmPasswordField (lit ''Abcdefg1''), Submit, Submit]
          (mount (Some (lit ''a1b2c3'')), 0)) = 1"
  by (simp add: mount_def token_effect_def token_falsy_def initial_state_def handleChange_def
      submit_form_def submit_disabled_def render_def handleResetPassword_begin_def
      validatePassword_Abcdefg1)

lemma example_trace_upload:
  "snd (upload_run [SelectFile (Some cv_pdf), EditJob Title (lit ''Engineer''),
                    EditJob Company (lit ''Acme''),
                    EditJob Description (lit ''Build things''), ClickStart, ClickStart]
          (upload_initial True JNull, 0)) = 1"
  by (simp add: upload_initial_def handleFileUpload_def handleJobDetailsChange_def cv_pdf_def
      click_start_def start_disabled_def isFormValid_def trim_eq_Nil_iff
      handleStartScanning_begin_def lit_def is_white_space_def)

end
